theory Spec2Isabelle
  imports Complex_Main
begin

section \<open>JavaScript values used by content.js\<close>

text \<open>
  Numbers. A JavaScript number is modelled by its exact value: a rational, one of the
  two infinities, or NaN. Arithmetic is exact; the rounding of each operation to
  binary64 and the sign of zero are not part of the model.
\<close>

datatype jsnum = NaN | Number rat | PosInf | NegInf

definition isNaN :: "jsnum \<Rightarrow> bool" where
  "isNaN x = (x = NaN)"

fun js_lt :: "jsnum \<Rightarrow> jsnum \<Rightarrow> bool" where
  "js_lt NaN _ = False"
| "js_lt _ NaN = False"
| "js_lt (Number a) (Number b) = (a < b)"
| "js_lt (Number a) PosInf = True"
| "js_lt (Number a) NegInf = False"
| "js_lt PosInf _ = False"
| "js_lt NegInf NegInf = False"
| "js_lt NegInf _ = True"

definition js_gt :: "jsnum \<Rightarrow> jsnum \<Rightarrow> bool" where
  "js_gt x y = js_lt y x"

fun js_add :: "jsnum \<Rightarrow> jsnum \<Rightarrow> jsnum" where
  "js_add NaN _ = NaN"
| "js_add _ NaN = NaN"
| "js_add (Number a) (Number b) = Number (a + b)"
| "js_add PosInf NegInf = NaN"
| "js_add NegInf PosInf = NaN"
| "js_add PosInf _ = PosInf"
| "js_add NegInf _ = NegInf"
| "js_add (Number a) PosInf = PosInf"
| "js_add (Number a) NegInf = NegInf"

text \<open>Multiplication and division by a positive finite constant (\<open>* 60\<close>, \<open>/ 100\<close>).\<close>

fun js_times :: "jsnum \<Rightarrow> rat \<Rightarrow> jsnum" where
  "js_times (Number a) k = Number (a * k)"
| "js_times x k = x"

fun js_over :: "jsnum \<Rightarrow> rat \<Rightarrow> jsnum" where
  "js_over (Number a) k = Number (a / k)"
| "js_over x k = x"

text \<open>\<open>Math.round\<close>: the nearest integer, a tie going towards \<open>+\<infinity>\<close>.\<close>

fun Math_round :: "jsnum \<Rightarrow> jsnum" where
  "Math_round (Number a) = Number (of_int \<lfloor>a + 1 / 2\<rfloor>)"
| "Math_round x = x"

text \<open>Truthiness of a number: \<open>0\<close> and NaN are falsy.\<close>

fun truthy :: "jsnum \<Rightarrow> bool" where
  "truthy NaN = False"
| "truthy (Number a) = (a \<noteq> 0)"
| "truthy _ = True"

text \<open>A field that may be \<open>null\<close> or missing is an option; both are falsy.\<close>

fun truthy_opt :: "jsnum option \<Rightarrow> bool" where
  "truthy_opt None = False"
| "truthy_opt (Some x) = truthy x"

subsection \<open>Characters and strings\<close>

text \<open>
  A string is a list of code units; the model covers code units below 256. The
  white space of \<open>\s\<close>, \<open>trim\<close> and \<open>parseFloat\<close> is then tab, line feed, vertical tab,
  form feed, carriage return, space and the no-break space.
\<close>

definition is_space :: "char \<Rightarrow> bool" where
  "is_space c = (c \<in> set [CHR 0x09, CHR 0x0A, CHR 0x0B, CHR 0x0C, CHR 0x0D, CHR 0x20, CHR 0xA0])"

definition is_digit :: "char \<Rightarrow> bool" where
  "is_digit c = (c \<in> set ''0123456789'')"

definition digit_val :: "char \<Rightarrow> nat" where
  "digit_val c = of_char c - 48"

definition digits_val :: "string \<Rightarrow> nat" where
  "digits_val ds = foldl (\<lambda>a c. 10 * a + digit_val c) 0 ds"

text \<open>
  Canonicalisation under the \<open>i\<close> flag: a lower-case ASCII letter is compared as its
  upper-case form; no code unit above 127 is ever identified with an ASCII one.
\<close>

definition canon :: "char \<Rightarrow> char" where
  "canon c = (let n = (of_char c :: nat) in if 97 \<le> n \<and> n \<le> 122 then char_of (n - 32) else c)"

definition trim :: "string \<Rightarrow> string" where
  "trim s = rev (dropWhile is_space (rev (dropWhile is_space s)))"

text \<open>\<open>s.includes(sub)\<close>.\<close>

fun str_includes :: "string \<Rightarrow> string \<Rightarrow> bool" where
  "str_includes [] sub = (sub = [])"
| "str_includes (c # cs) sub = (take (length sub) (c # cs) = sub \<or> str_includes cs sub)"

text \<open>\<open>s.replace(pat, rep)\<close> with a string pattern: the first occurrence only.\<close>

fun replace_first :: "string \<Rightarrow> string \<Rightarrow> string \<Rightarrow> string" where
  "replace_first [] pat rep = (if pat = [] then rep else [])"
| "replace_first (c # cs) pat rep =
     (if take (length pat) (c # cs) = pat then rep @ drop (length pat) (c # cs)
      else c # replace_first cs pat rep)"

subsection \<open>Regular expressions\<close>

text \<open>
  The regular expressions of content.js use character classes, literals, greedy
  \<open>*\<close> and \<open>+\<close> on a single class, \<open>?\<close> on a group, alternation and capture groups;
  all of them carry the \<open>i\<close> flag. No capture group sits inside an alternative or
  an optional part, so the groups of a match are listed left to right.
\<close>

datatype cclass = Digit | DigitDot | Space | Lit char

fun in_class :: "cclass \<Rightarrow> char \<Rightarrow> bool" where
  "in_class Digit c = is_digit c"
| "in_class DigitDot c = (is_digit c \<or> c = CHR ''.'')"
| "in_class Space c = is_space c"
| "in_class (Lit p) c = (canon c = canon p)"

datatype regex =
    Eps
  | Atom cclass
  | Star cclass
  | Plus cclass
  | Seq regex regex
  | Alt regex regex
  | Opt regex
  | Group regex

fun lit :: "string \<Rightarrow> regex" where
  "lit [] = Eps"
| "lit [c] = Atom (Lit c)"
| "lit (c # cs) = Seq (Atom (Lit c)) (lit cs)"

text \<open>
  The remainders a greedy \<open>*\<close> can leave, in the order a backtracking matcher tries
  them: the longest run first.
\<close>

fun star_rests :: "(char \<Rightarrow> bool) \<Rightarrow> string \<Rightarrow> string list" where
  "star_rests p [] = [[]]"
| "star_rests p (c # cs) = (if p c then star_rests p cs @ [c # cs] else [c # cs])"

text \<open>
  All the ways the expression matches a prefix of the string, in backtracking order;
  each is the captured groups and the remainder. The first is the match JavaScript finds.
\<close>

fun rmatch :: "regex \<Rightarrow> string \<Rightarrow> (string list \<times> string) list" where
  "rmatch Eps s = [([], s)]"
| "rmatch (Atom k) s = (case s of [] \<Rightarrow> [] | c # cs \<Rightarrow> if in_class k c then [([], cs)] else [])"
| "rmatch (Star k) s = map (\<lambda>r. ([], r)) (star_rests (in_class k) s)"
| "rmatch (Plus k) s =
     (case s of [] \<Rightarrow> []
      | c # cs \<Rightarrow> if in_class k c then map (\<lambda>r. ([], r)) (star_rests (in_class k) cs) else [])"
| "rmatch (Seq a b) s =
     concat (map (\<lambda>(g1, r1). map (\<lambda>(g2, r2). (g1 @ g2, r2)) (rmatch b r1)) (rmatch a s))"
| "rmatch (Alt a b) s = rmatch a s @ rmatch b s"
| "rmatch (Opt a) s = rmatch a s @ [([], s)]"
| "rmatch (Group a) s = map (\<lambda>(g, r). (take (length s - length r) s # g, r)) (rmatch a s)"

text \<open>\<open>s.match(/^.../)\<close>: the groups of the match at the start of the string, or \<open>null\<close>.\<close>

definition match_start :: "regex \<Rightarrow> string \<Rightarrow> string list option" where
  "match_start r s = (case rmatch r s of [] \<Rightarrow> None | (g, _) # _ \<Rightarrow> Some g)"

text \<open>\<open>s.match(/.../)\<close>: the groups of the leftmost match, or \<open>null\<close>.\<close>

fun match_any :: "regex \<Rightarrow> string \<Rightarrow> string list option" where
  "match_any r [] = match_start r []"
| "match_any r (c # cs) =
     (case match_start r (c # cs) of Some g \<Rightarrow> Some g | None \<Rightarrow> match_any r cs)"

subsection \<open>parseFloat and parseInt\<close>

text \<open>The exponent part of a decimal literal, if one follows: \<open>e\<close> or \<open>E\<close>, a sign, digits.\<close>

definition exponent :: "string \<Rightarrow> int" where
  "exponent s =
     (case s of [] \<Rightarrow> 0
      | c # r \<Rightarrow>
          if c = CHR ''e'' \<or> c = CHR ''E'' then
            (case r of [] \<Rightarrow> 0
             | d # r' \<Rightarrow>
                 if d = CHR ''-'' then (if takeWhile is_digit r' = [] then 0
                                         else - int (digits_val (takeWhile is_digit r')))
                 else if d = CHR ''+'' then int (digits_val (takeWhile is_digit r'))
                 else int (digits_val (takeWhile is_digit r)))
          else 0)"

definition pow10 :: "int \<Rightarrow> rat" where
  "pow10 e = (if 0 \<le> e then 10 ^ nat e else 1 / 10 ^ nat (- e))"

text \<open>
  \<open>parseFloat\<close>: leading white space is skipped, then the longest prefix that is a
  decimal literal (sign, \<open>Infinity\<close>, digits, fraction, exponent) gives the value;
  NaN when there is none.
\<close>

definition parseFloat :: "string \<Rightarrow> jsnum" where
  "parseFloat s =
     (let t = dropWhile is_space s;
          neg = (take 1 t = ''-'');
          u = (if take 1 t = ''-'' \<or> take 1 t = ''+'' then drop 1 t else t)
      in if take 8 u = ''Infinity'' then (if neg then NegInf else PosInf)
         else
           let ip = takeWhile is_digit u;
               r1 = dropWhile is_digit u;
               fp = (if take 1 r1 = ''.'' then takeWhile is_digit (drop 1 r1) else []);
               r2 = (if take 1 r1 = ''.'' then dropWhile is_digit (drop 1 r1) else r1)
           in if ip = [] \<and> fp = [] then NaN
              else
                let mant = of_nat (digits_val ip) + of_nat (digits_val fp) / 10 ^ length fp
                in Number ((if neg then - mant else mant) * pow10 (exponent r2)))"

text \<open>\<open>parseInt(s, 10)\<close>: white space, a sign, then the leading digits; NaN when there are none.\<close>

definition parseInt :: "string \<Rightarrow> jsnum" where
  "parseInt s =
     (let t = dropWhile is_space s;
          neg = (take 1 t = ''-'');
          u = (if take 1 t = ''-'' \<or> take 1 t = ''+'' then drop 1 t else t);
          ds = takeWhile is_digit u
      in if ds = [] then NaN
         else Number (if neg then - of_nat (digits_val ds) else of_nat (digits_val ds)))"

section \<open>parseDuration\<close>

definition minRe :: regex where
  "minRe = Seq (Group (Plus DigitDot)) (Seq (Star Space) (lit ''min''))"

definition secRe :: regex where
  "secRe = Seq (Group (Plus DigitDot)) (Seq (Star Space) (lit ''sec''))"

text \<open>\<open>m && m[1] ? parseFloat(m[1]) : 0\<close> for a match result \<open>m\<close>.\<close>

definition group1_or_zero :: "string list option \<Rightarrow> jsnum" where
  "group1_or_zero m =
     (case m of Some (g # _) \<Rightarrow> if g \<noteq> [] then parseFloat g else Number 0 | _ \<Rightarrow> Number 0)"

text \<open>The value of \<open>duration\<close> before the final check of parseDuration.\<close>

definition raw_duration :: "string \<Rightarrow> jsnum" where
  "raw_duration durationStr =
     (let minMatch = match_any minRe durationStr;
          secMatch = match_any secRe durationStr
      in if str_includes durationStr ''min'' \<and> str_includes durationStr ''sec'' then
           (let minutes = group1_or_zero minMatch;
                seconds = group1_or_zero secMatch
            in js_add (js_times minutes 60) seconds)
         else
           (case minMatch of
              Some (g # _) \<Rightarrow>
                if g \<noteq> [] then js_times (parseFloat g) 60
                else (case secMatch of
                        Some (h # _) \<Rightarrow> if h \<noteq> [] then parseFloat h else Number 0
                      | _ \<Rightarrow> Number 0)
            | _ \<Rightarrow>
                (case secMatch of
                   Some (h # _) \<Rightarrow> if h \<noteq> [] then parseFloat h else Number 0
                 | _ \<Rightarrow> Number 0)))"

text \<open>The argument is \<open>None\<close> for \<open>null\<close> and \<open>undefined\<close>.\<close>

definition parseDuration :: "string option \<Rightarrow> jsnum" where
  "parseDuration arg =
     (case arg of
        None \<Rightarrow> Number 0
      | Some durationStr \<Rightarrow>
          if durationStr = [] then Number 0
          else
            let duration = raw_duration durationStr
            in if isNaN duration \<or> js_lt duration (Number 0) then Number 0
               else Math_round duration)"

section \<open>parseSegment\<close>

text \<open>
  A classified segment: the object parseSegment returns and generateZWO reads. The
  first four constructors are the objects whose \<open>type\<close> is one of the four names the
  serializer knows, with the fields in the order given below; \<open>Other\<close> is an object of
  any other \<open>type\<close>, of which the serializer reads \<open>duration\<close> and \<open>cadence\<close>. A field
  that is \<open>null\<close> or missing is \<open>None\<close>.
\<close>

datatype segment =
    FreeRide jsnum "jsnum option" "jsnum option"
      \<comment> \<open>duration, flatRoad, cadence\<close>
  | Ramp jsnum jsnum jsnum "jsnum option"
      \<comment> \<open>duration, powerLow, powerHigh, cadence\<close>
  | SteadyState jsnum jsnum "jsnum option"
      \<comment> \<open>duration, power, cadence\<close>
  | IntervalsT jsnum jsnum jsnum jsnum jsnum "jsnum option" "jsnum option"
      \<comment> \<open>repeat, onDuration, onPower, offDuration, offPower, onCadence, offCadence\<close>
  | Other string "jsnum option" "jsnum option"
      \<comment> \<open>type, duration, cadence\<close>

fun seqs :: "regex list \<Rightarrow> regex" where
  "seqs [] = Eps"
| "seqs [r] = r"
| "seqs (r # rs) = Seq r (seqs rs)"

text \<open>\<open>[\d.]+\s*min(?:\s+\d+sec)?|\d+\s*sec\<close>\<close>

definition durationPhrase :: regex where
  "durationPhrase =
     Alt (seqs [Plus DigitDot, Star Space, lit ''min'',
                Opt (seqs [Plus Space, Plus Digit, lit ''sec''])])
         (seqs [Plus Digit, Star Space, lit ''sec''])"

text \<open>\<open>/(\d+)\s*rpm/i\<close>\<close>

definition cadenceRe :: regex where
  "cadenceRe = seqs [Group (Plus Digit), Star Space, lit ''rpm'']"

text \<open>\<open>/^([\d.]+)\s*(min|sec)\s+free\s+ride/i\<close>\<close>

definition freeRideRe :: regex where
  "freeRideRe =
     seqs [Group (Plus DigitDot), Star Space, Group (Alt (lit ''min'') (lit ''sec'')),
           Plus Space, lit ''free'', Plus Space, lit ''ride'']"

text \<open>\<open>/^(...)\s+@\s+\d+rpm,\s+from\s+/i\<close> and \<open>/^(...)\s+from\s+/i\<close>\<close>

definition rampCadenceRe :: regex where
  "rampCadenceRe =
     seqs [Group durationPhrase, Plus Space, lit ''@'', Plus Space, Plus Digit, lit ''rpm,'',
           Plus Space, lit ''from'', Plus Space]"

definition rampRe :: regex where
  "rampRe = seqs [Group durationPhrase, Plus Space, lit ''from'', Plus Space]"

text \<open>\<open>/^(...)\s+@\s+/i\<close>\<close>

definition steadyRe :: regex where
  "steadyRe = seqs [Group durationPhrase, Plus Space, lit ''@'', Plus Space]"

text \<open>\<open>/^(\d+)x\s+(...)\s+@/i\<close>\<close>

definition intervalRe :: regex where
  "intervalRe =
     seqs [Group (Plus Digit), lit ''x'', Plus Space, Group durationPhrase, Plus Space, lit ''@'']"

text \<open>\<open>/@\s+(\d+)\s*rpm/i\<close>\<close>

definition onCadenceRe :: regex where
  "onCadenceRe = seqs [lit ''@'', Plus Space, Group (Plus Digit), Star Space, lit ''rpm'']"

text \<open>\<open>/<br\s*\/?>|\n/gi\<close> and \<open>/,\s*/\<close>\<close>

definition brRe :: regex where
  "brRe = Alt (seqs [lit ''<br'', Star Space, Opt (lit ''/''), lit ''>'']) (Atom (Lit (CHR 0x0A)))"

definition commaRe :: regex where
  "commaRe = seqs [lit '','', Star Space]"

text \<open>
  \<open>s.replace(re, rep)\<close> with the \<open>g\<close> flag, for an expression that matches no empty
  string: every match, found left to right, is replaced. The counter is the number of
  characters of the current match still to be skipped.
\<close>

fun replace_all_from :: "regex \<Rightarrow> string \<Rightarrow> nat \<Rightarrow> string \<Rightarrow> string" where
  "replace_all_from r rep k [] = []"
| "replace_all_from r rep (Suc k) (c # cs) = replace_all_from r rep k cs"
| "replace_all_from r rep 0 (c # cs) =
     (case rmatch r (c # cs) of
        [] \<Rightarrow> c # replace_all_from r rep 0 cs
      | (_, rest) # _ \<Rightarrow> rep @ replace_all_from r rep (length cs - length rest) cs)"

definition replace_all :: "regex \<Rightarrow> string \<Rightarrow> string \<Rightarrow> string" where
  "replace_all r rep s = replace_all_from r rep 0 s"

text \<open>
  \<open>s.split(re)\<close>, for an expression that matches no empty string: the pieces between
  the matches. \<open>acc\<close> is the piece being read.
\<close>

fun split_from :: "regex \<Rightarrow> nat \<Rightarrow> string \<Rightarrow> string \<Rightarrow> string list" where
  "split_from r k acc [] = [acc]"
| "split_from r (Suc k) acc (c # cs) = split_from r k acc cs"
| "split_from r 0 acc (c # cs) =
     (case rmatch r (c # cs) of
        [] \<Rightarrow> split_from r 0 (acc @ [c]) cs
      | (_, rest) # _ \<Rightarrow> acc # split_from r (length cs - length rest) [] cs)"

definition split :: "regex \<Rightarrow> string \<Rightarrow> string list" where
  "split r s = split_from r 0 [] s"

text \<open>\<open>parts.join(sep)\<close>\<close>

fun join :: "string \<Rightarrow> string list \<Rightarrow> string" where
  "join sep [] = []"
| "join sep [p] = p"
| "join sep (p # ps) = p @ sep @ join sep ps"

text \<open>Group \<open>k\<close> of a match (\<open>m[k]\<close>, counted from 1); the groups here always take part.\<close>

definition group :: "nat \<Rightarrow> string list \<Rightarrow> string" where
  "group k g = (if k - 1 < length g then g ! (k - 1) else [])"

text \<open>\<open>parseFloat(spans[i].dataset.value) / 100\<close>, read only where \<open>i < spans.length\<close>.\<close>

definition span_power :: "string list \<Rightarrow> nat \<Rightarrow> jsnum" where
  "span_power spans i = js_over (parseFloat (spans ! i)) 100"

text \<open>\<open>cadenceMatch ? parseInt(cadenceMatch[1], 10) : null\<close> for the first \<open><n>rpm\<close> of the text.\<close>

definition text_cadence :: "string \<Rightarrow> jsnum option" where
  "text_cadence text =
     (case match_any cadenceRe text of
        Some cadenceMatch \<Rightarrow> Some (parseInt (group 1 cadenceMatch))
      | None \<Rightarrow> None)"

text \<open>The blocks of parseSegment, in the order of the source; each returns or falls through.\<close>

definition freeRide_block :: "string \<Rightarrow> segment option" where
  "freeRide_block text =
     (case match_start freeRideRe text of
        None \<Rightarrow> None
      | Some freeRideMatch \<Rightarrow>
          let durationStr = group 1 freeRideMatch @ group 2 freeRideMatch;
              duration = parseDuration (Some durationStr)
          in if js_gt duration (Number 0) then Some (FreeRide duration (Some (Number 1)) None)
             else None)"

definition ramp_block :: "string \<Rightarrow> string list \<Rightarrow> jsnum option \<Rightarrow> segment option" where
  "ramp_block text spans cadence =
     (let rampMatch = (case match_start rampCadenceRe text of
                         Some g \<Rightarrow> Some g
                       | None \<Rightarrow> match_start rampRe text)
      in case rampMatch of
           None \<Rightarrow> None
         | Some g \<Rightarrow>
             if length spans = 2 then
               (let durationStr = group 1 g;
                    duration = parseDuration (Some durationStr);
                    powerLow = span_power spans 0;
                    powerHigh = span_power spans 1
                in if js_gt duration (Number 0) \<and> \<not> isNaN powerLow \<and> \<not> isNaN powerHigh
                   then Some (Ramp duration powerLow powerHigh cadence)
                   else None)
             else None)"

definition steady_block :: "string \<Rightarrow> string list \<Rightarrow> jsnum option \<Rightarrow> segment option" where
  "steady_block text spans cadence =
     (case match_start steadyRe text of
        None \<Rightarrow> None
      | Some steadyMatch \<Rightarrow>
          if length spans = 1 then
            (let durationStr = group 1 steadyMatch;
                 duration = parseDuration (Some durationStr);
                 power = span_power spans 0
             in if js_gt duration (Number 0) \<and> \<not> isNaN power
                then Some (SteadyState duration power cadence)
                else None)
          else None)"

definition interval_block :: "string \<Rightarrow> string list \<Rightarrow> segment option" where
  "interval_block text spans =
     (case match_start intervalRe text of
        None \<Rightarrow> None
      | Some intervalMatch \<Rightarrow>
          if length spans = 2 then
            (let repeat = parseInt (group 1 intervalMatch);
                 onDuration = parseDuration (Some (group 2 intervalMatch));
                 onPower = span_power spans 0;
                 offPower = span_power spans 1;
                 onCadence = (case match_any onCadenceRe text of
                                Some onCadenceMatch \<Rightarrow> Some (parseInt (group 1 onCadenceMatch))
                              | None \<Rightarrow> None);
                 normalizedText = replace_all brRe '','' text;
                 parts = split commaRe normalizedText;
                 offText = join '','' (drop 1 parts);
                 offDuration =
                   (if length parts > 1 then
                      (case match_any (Group durationPhrase) offText of
                         Some offDurationMatch \<Rightarrow> parseDuration (Some (group 1 offDurationMatch))
                       | None \<Rightarrow> Number 0)
                    else Number 0);
                 offCadence =
                   (if length parts > 1 then
                      (case match_any cadenceRe offText of
                         Some offCadenceMatch \<Rightarrow> Some (parseInt (group 1 offCadenceMatch))
                       | None \<Rightarrow> None)
                    else None)
             in if \<not> isNaN repeat \<and> js_gt onDuration (Number 0) \<and> \<not> isNaN onPower
                   \<and> js_gt offDuration (Number 0) \<and> \<not> isNaN offPower
                then Some (IntervalsT repeat onDuration onPower offDuration offPower
                             onCadence offCadence)
                else None)
          else None)"

definition fallback_block :: "string \<Rightarrow> string list \<Rightarrow> jsnum option \<Rightarrow> segment option" where
  "fallback_block text spans cadence =
     (if length spans = 1 then
        (case match_start (Group durationPhrase) text of
           None \<Rightarrow> None
         | Some durationMatch \<Rightarrow>
             let duration = parseDuration (Some (group 1 durationMatch));
                 power = span_power spans 0
             in if js_gt duration (Number 0) \<and> \<not> isNaN power
                then Some (SteadyState duration power cadence)
                else None)
      else None)"

text \<open>
  parseSegment, for an element whose \<open>innerText || textContent || ''\<close> is \<open>rawText\<close> and
  whose \<open>span[data-value]\<close> descendants carry the values \<open>spans\<close>, in document order.
  \<open>None\<close> is \<open>null\<close>.
\<close>

definition parseSegment :: "string \<Rightarrow> string list \<Rightarrow> segment option" where
  "parseSegment rawText spans =
     (let text = trim rawText;
          cadence = text_cadence text
      in case freeRide_block text of
           Some seg \<Rightarrow> Some seg
         | None \<Rightarrow>
            (case ramp_block text spans cadence of
               Some seg \<Rightarrow> Some seg
             | None \<Rightarrow>
                (case steady_block text spans cadence of
                   Some seg \<Rightarrow> Some seg
                 | None \<Rightarrow>
                    (case interval_block text spans of
                       Some seg \<Rightarrow> Some seg
                     | None \<Rightarrow> fallback_block text spans cadence))))"

section \<open>generateZWO\<close>

subsection \<open>Numbers as text\<close>

definition digit_char :: "nat \<Rightarrow> char" where
  "digit_char d = char_of (48 + d)"

fun show_nat :: "nat \<Rightarrow> string" where
  "show_nat n = (if n < 10 then [digit_char n] else show_nat (n div 10) @ [digit_char (n mod 10)])"

declare show_nat.simps [simp del]

fun frac_digits :: "nat \<Rightarrow> rat \<Rightarrow> string" where
  "frac_digits 0 f = []"
| "frac_digits (Suc k) f =
     (if f = 0 then []
      else digit_char (nat \<lfloor>f * 10\<rfloor>) # frac_digits k (f * 10 - of_int \<lfloor>f * 10\<rfloor>))"

text \<open>
  A number inside a template literal. An integral value is printed by its digits.
  For a value with a fraction, or of magnitude \<open>10\<^sup>2\<^sup>1\<close> and more, the text JavaScript
  prints depends on the binary64 representation; the model prints the decimal
  expansion, cut after 20 places. The classifier stores integral values only in the
  fields printed this way.
\<close>

definition num_to_string :: "jsnum \<Rightarrow> string" where
  "num_to_string x =
     (case x of
        NaN \<Rightarrow> ''NaN''
      | PosInf \<Rightarrow> ''Infinity''
      | NegInf \<Rightarrow> ''-Infinity''
      | Number r \<Rightarrow>
          (let a = \<bar>r\<bar>;
               ip = nat \<lfloor>a\<rfloor>;
               fp = a - of_nat ip
           in (if r < 0 then ''-'' else [])
              @ show_nat ip
              @ (if fp = 0 then [] else ''.'' @ frac_digits 20 fp)))"

text \<open>
  \<open>x.toFixed(2)\<close>: a value that is not finite, or of magnitude \<open>10\<^sup>2\<^sup>1\<close> and more, is
  printed as any number is; otherwise \<open>n\<close> is the integer nearest to \<open>100 * |x|\<close>, the
  larger one on a tie, padded with zeros to three digits, and the point is put before its
  last two digits.
\<close>

definition toFixed2 :: "jsnum \<Rightarrow> string" where
  "toFixed2 x =
     (case x of
        Number r \<Rightarrow>
          if 10 ^ 21 \<le> \<bar>r\<bar> then num_to_string x
          else
            (let n = nat \<lfloor>\<bar>r\<bar> * 100 + 1 / 2\<rfloor>;
                 m = show_nat n;
                 m = (if length m \<le> 2 then replicate (3 - length m) CHR ''0'' @ m else m)
             in (if r < 0 then ''-'' else [])
                @ take (length m - 2) m @ ''.'' @ drop (length m - 2) m)
      | _ \<Rightarrow> num_to_string x)"

subsection \<open>The document\<close>

definition segment_type :: "segment \<Rightarrow> string" where
  \<open>segment_type seg =
     (case seg of
        FreeRide _ _ _ \<Rightarrow> ''FreeRide''
      | Ramp _ _ _ _ \<Rightarrow> ''Ramp''
      | SteadyState _ _ _ \<Rightarrow> ''SteadyState''
      | IntervalsT _ _ _ _ _ _ _ \<Rightarrow> ''IntervalsT''
      | Other t _ _ \<Rightarrow> t)\<close>

text \<open>\<open>if (c) { xml += ` Name="${c}"` }\<close> for a cadence field \<open>c\<close>.\<close>

definition cadence_attr :: "string \<Rightarrow> jsnum option \<Rightarrow> string" where
  \<open>cadence_attr name c =
     (case c of
        None \<Rightarrow> []
      | Some v \<Rightarrow> if truthy v then '' '' @ name @ ''="'' @ num_to_string v @ ''"'' else [])\<close>

text \<open>
  The attributes the four named cases of the \<open>switch\<close> append, and those of the default
  case for an object with a truthy \<open>duration\<close>.
\<close>

definition attributes :: "segment \<Rightarrow> string" where
  \<open>attributes seg =
     (case seg of
        Ramp duration powerLow powerHigh cadence \<Rightarrow>
          ''Duration="'' @ num_to_string duration @ ''" PowerLow="'' @ toFixed2 powerLow
          @ ''" PowerHigh="'' @ toFixed2 powerHigh @ ''"'' @ cadence_attr ''Cadence'' cadence
      | SteadyState duration power' cadence \<Rightarrow>
          ''Duration="'' @ num_to_string duration @ ''" Power="'' @ toFixed2 power' @ ''"''
          @ cadence_attr ''Cadence'' cadence
      | IntervalsT repeat onDuration onPower offDuration offPower onCadence offCadence \<Rightarrow>
          ''Repeat="'' @ num_to_string repeat @ ''" OnDuration="'' @ num_to_string onDuration
          @ ''" OnPower="'' @ toFixed2 onPower @ ''" OffDuration="'' @ num_to_string offDuration
          @ ''" OffPower="'' @ toFixed2 offPower @ ''"''
          @ cadence_attr ''OnCadence'' onCadence @ cadence_attr ''OffCadence'' offCadence
      | FreeRide duration flatRoad cadence \<Rightarrow>
          ''Duration="'' @ num_to_string duration @ ''" FlatRoad="''
          @ num_to_string (case flatRoad of
                             None \<Rightarrow> Number 1
                           | Some f \<Rightarrow> if truthy f then f else Number 1)
          @ ''"'' @ cadence_attr ''Cadence'' cadence
      | Other t duration cadence \<Rightarrow>
          ''Duration="'' @ num_to_string (case duration of None \<Rightarrow> NaN | Some d \<Rightarrow> d)
          @ ''" Power="0.50"'' @ cadence_attr ''Cadence'' cadence)\<close>

text \<open>The default case of the \<open>switch\<close> without a truthy \<open>duration\<close>: the opening tag is rewritten.\<close>

definition needs_fix :: "segment \<Rightarrow> bool" where
  "needs_fix seg = (case seg of Other t duration cadence \<Rightarrow> \<not> truthy_opt duration | _ \<Rightarrow> False)"

text \<open>The body of the \<open>forEach\<close>: what one segment at position \<open>index\<close> of \<open>n\<close> does to \<open>xml\<close>.\<close>

definition emit_segment :: "nat \<Rightarrow> nat \<Rightarrow> segment \<Rightarrow> string \<Rightarrow> string" where
  \<open>emit_segment n index seg xml =
     (let isFirst = (index = 0);
          isLast = (int index = int n - 1);
          type = (if isFirst then ''Warmup''
                  else if isLast \<and> n > 1 then ''Cooldown''
                  else segment_type seg);
          xml = xml @ ''        <'' @ type @ '' '';
          xml = (if needs_fix seg
                 then replace_first xml (''<'' @ type @ '' '') ''<SteadyState ''
                      @ ''Duration="60" Power="0.50"''
                 else xml @ attributes seg)
      in xml @ '' />'' @ [CHR 0x0A])\<close>

fun emit_all :: "nat \<Rightarrow> nat \<Rightarrow> segment list \<Rightarrow> string \<Rightarrow> string" where
  "emit_all n index [] xml = xml"
| "emit_all n index (seg # segs) xml = emit_all n (Suc index) segs (emit_segment n index seg xml)"

definition header :: "string \<Rightarrow> string \<Rightarrow> string" where
  \<open>header workoutName href =
     [CHR 0x0A] @ ''    <workout_file>'' @ [CHR 0x0A]
     @ ''        <author>WhatsOnZwift Exporter</author>'' @ [CHR 0x0A]
     @ ''        <name>'' @ workoutName @ ''</name>'' @ [CHR 0x0A]
     @ ''        <description>Workout exported from WhatsOnZwift: '' @ href
     @ ''</description>'' @ [CHR 0x0A]
     @ ''        <sportType>bike</sportType>'' @ [CHR 0x0A]
     @ ''        <tags/>'' @ [CHR 0x0A]
     @ ''        <workout>'' @ [CHR 0x0A]\<close>

definition footer :: string where
  \<open>footer = ''    </workout>'' @ [CHR 0x0A] @ ''</workout_file>''\<close>

text \<open>generateZWO; \<open>href\<close> is the text of \<open>window.location.href\<close>.\<close>

definition generateZWO :: "string \<Rightarrow> string \<Rightarrow> segment list \<Rightarrow> string" where
  "generateZWO workoutName href segments =
     emit_all (length segments) 0 segments (header workoutName href) @ footer"

section \<open>Notions used to state the properties\<close>


text \<open>
  The tag the specification gives the element at position \<open>i\<close> of \<open>n\<close>: the lead tag at
  the first position, the trail tag at the last one of a list of more than one, and the
  segment's own kind elsewhere.
\<close>

definition boundary_tag :: "nat \<Rightarrow> nat \<Rightarrow> segment \<Rightarrow> string" where
  "boundary_tag n i seg =
     (if i = 0 then ''Warmup''
      else if i = n - 1 \<and> n > 1 then ''Cooldown''
      else segment_type seg)"

text \<open>One element of the document: a tag, then the attributes of the segment's own kind.\<close>

definition element :: "string \<Rightarrow> segment \<Rightarrow> string" where
  \<open>element tag seg = ''        <'' @ tag @ '' '' @ attributes seg @ '' />'' @ [CHR 0x0A]\<close>

text \<open>A cadence field that holds \<open>0\<close>, made absent.\<close>

definition drop_zero :: "jsnum option \<Rightarrow> jsnum option" where
  "drop_zero c = (if c = Some (Number 0) then None else c)"

definition cadence_zero_absent :: "segment \<Rightarrow> segment" where
  "cadence_zero_absent seg =
     (case seg of
        FreeRide d f c \<Rightarrow> FreeRide d f (drop_zero c)
      | Ramp d lo hi c \<Rightarrow> Ramp d lo hi (drop_zero c)
      | SteadyState d p c \<Rightarrow> SteadyState d p (drop_zero c)
      | IntervalsT n d1 p1 d2 p2 c1 c2 \<Rightarrow> IntervalsT n d1 p1 d2 p2 (drop_zero c1) (drop_zero c2)
      | Other t d c \<Rightarrow> Other t d (drop_zero c))"

text \<open>
  A text with exactly two decimal digits: an optional minus sign, one digit or more, a
  point, two digits.
\<close>

definition two_decimal_form :: "string \<Rightarrow> bool" where
  "two_decimal_form s =
     (let body = (if take 1 s = ''-'' then drop 1 s else s);
          k = length body - 3
      in 4 \<le> length body
         \<and> list_all is_digit (take k body)
         \<and> body ! k = CHR ''.''
         \<and> list_all is_digit (drop (Suc k) body))"







text \<open>The match a backtracking matcher finds first: its groups and the remainder.\<close>

definition first_match :: "regex \<Rightarrow> string \<Rightarrow> string list \<Rightarrow> string \<Rightarrow> bool" where
  "first_match r s g rest = (\<exists>zs. rmatch r s = (g, rest) # zs)"

section \<open>Matching lemmas\<close>











lemma first_match_Opt_skip:
  "rmatch a s = [] \<Longrightarrow> first_match (Opt a) s [] s"
  by (auto simp: first_match_def)



















section \<open>Properties of parseDuration\<close>





















lemma digits_val_Nil: "digits_val [] = 0"
  by (simp add: digits_val_def)






















section \<open>Properties of parseSegment\<close>

lemma freeRide_block_shape:
  "freeRide_block t = Some seg \<Longrightarrow>
     \<exists>d. seg = FreeRide d (Some (Number 1)) None \<and> js_gt d (Number 0)"
  by (auto simp: freeRide_block_def Let_def split: option.splits if_splits)

lemma ramp_block_shape:
  "ramp_block t sp c = Some seg \<Longrightarrow>
     \<exists>d lo hi. seg = Ramp d lo hi c \<and> js_gt d (Number 0) \<and> \<not> isNaN lo \<and> \<not> isNaN hi"
  by (auto simp: ramp_block_def Let_def split: option.splits if_splits)

lemma steady_block_shape:
  "steady_block t sp c = Some seg \<Longrightarrow>
     \<exists>d p. seg = SteadyState d p c \<and> js_gt d (Number 0) \<and> \<not> isNaN p"
  by (auto simp: steady_block_def Let_def split: option.splits if_splits)

lemma interval_block_shape:
  "interval_block t sp = Some seg \<Longrightarrow>
     \<exists>n d1 p1 d2 p2 c1 c2. seg = IntervalsT n d1 p1 d2 p2 c1 c2 \<and> \<not> isNaN n
        \<and> js_gt d1 (Number 0) \<and> \<not> isNaN p1 \<and> js_gt d2 (Number 0) \<and> \<not> isNaN p2"
  by (auto simp: interval_block_def Let_def js_gt_def split: option.splits if_splits)

lemma fallback_block_shape:
  "fallback_block t sp c = Some seg \<Longrightarrow>
     \<exists>d p. seg = SteadyState d p c \<and> js_gt d (Number 0) \<and> \<not> isNaN p"
  by (auto simp: fallback_block_def Let_def split: option.splits if_splits)

lemma parseSegment_cases:
  "parseSegment rawText spans = Some seg \<Longrightarrow>
     freeRide_block (trim rawText) = Some seg
     \<or> (\<exists>c. ramp_block (trim rawText) spans c = Some seg)
     \<or> (\<exists>c. steady_block (trim rawText) spans c = Some seg)
     \<or> interval_block (trim rawText) spans = Some seg
     \<or> (\<exists>c. fallback_block (trim rawText) spans c = Some seg)"
  unfolding parseSegment_def Let_def
  by (auto split: option.splits)

text \<open>
  C2. The claim: in an Intervals segment the on-cadence comes only from the text before
  the first comma or line break. The code searches the whole text for \<open>@ <n>rpm\<close>: for
  the fragment of the repository's test "Intervals with only Off Cadence", whose only
  cadence stands in the off half, the on-cadence is 80 where the test expects \<open>null\<close>.
\<close>

theorem onCadence_taken_from_off_half:
  "parseSegment ''3x 2min @ 95% FTP, 1min @ 80rpm, 50% FTP'' [''95'', ''50'']
     = Some (IntervalsT (Number 3) (Number 120) (Number (19 / 20)) (Number 60) (Number (1 / 2))
               (Some (Number 80)) (Some (Number 80)))"
  by code_simp



text \<open>
  C10. A FreeRide segment that the classifier returns has \<open>flatRoad = 1\<close> and no
  cadence, whatever the text says, so its element carries Duration and FlatRoad only;
  the serializer does append a Cadence attribute to a FreeRide segment with a truthy
  cadence.
\<close>

theorem freeRide_carries_no_cadence:
  assumes "parseSegment rawText spans = Some (FreeRide d f c)"
  shows \<open>f = Some (Number 1) \<and> c = None
         \<and> attributes (FreeRide d f c) = ''Duration="'' @ num_to_string d @ ''" FlatRoad="1"''
         \<and> (\<forall>v. truthy v \<longrightarrow>
               attributes (FreeRide d f (Some v))
                 = attributes (FreeRide d f c) @ '' Cadence="'' @ num_to_string v @ ''"'')\<close>
proof -
  from parseSegment_cases [OF assms] have fc: "f = Some (Number 1) \<and> c = None"
    by (auto dest: freeRide_block_shape ramp_block_shape steady_block_shape
          interval_block_shape fallback_block_shape)
  have one: "num_to_string (Number 1) = ''1''"
    by code_simp
  show ?thesis
    using fc by (simp add: attributes_def cadence_attr_def one)
qed

theorem freeRide_carries_no_cadence_witness:
  \<open>parseSegment ''15min free ride @ 85rpm'' [] = Some (FreeRide (Number 900) (Some (Number 1)) None)
   \<and> match_any cadenceRe ''15min free ride @ 85rpm'' = Some [''85'']
   \<and> attributes (FreeRide (Number 900) (Some (Number 1)) None) = ''Duration="900" FlatRoad="1"''
   \<and> attributes (FreeRide (Number 900) (Some (Number 1)) (Some (Number 85)))
       = ''Duration="900" FlatRoad="1" Cadence="85"''\<close>
proof -
  have h: "parseSegment ''15min free ride @ 85rpm'' []
             = Some (FreeRide (Number 900) (Some (Number 1)) None)"
    by code_simp
  have m: "match_any cadenceRe ''15min free ride @ 85rpm'' = Some [''85'']"
    by code_simp
  have n1: "num_to_string (Number 900) = ''900''" by code_simp
  have n2: "num_to_string (Number 85) = ''85''" by code_simp
  have t: "truthy (Number 85)" by simp
  from freeRide_carries_no_cadence [OF h] t h m show ?thesis
    by (simp add: n1 n2)
qed





subsection \<open>The FreeRide rule\<close>













































section \<open>Properties of generateZWO\<close>

lemma emit_all_closed_form:
  "list_all (\<lambda>s. \<not> needs_fix s) segs \<Longrightarrow>
   emit_all n i segs xml
     = xml @ concat (map (\<lambda>(j, seg). element (boundary_tag n j seg) seg) (enumerate i segs))"
proof (induction segs arbitrary: i xml)
  case Nil
  then show ?case by simp
next
  case (Cons seg segs)
  have step: "emit_segment n i seg xml = xml @ element (boundary_tag n i seg) seg"
    using Cons.prems
    by (auto simp: emit_segment_def element_def boundary_tag_def Let_def)
  show ?case using Cons by (simp add: step)
qed

lemma cadence_attr_drop_zero: "cadence_attr name (drop_zero c) = cadence_attr name c"
  by (simp add: cadence_attr_def drop_zero_def)

lemma zero_absent_same:
  "segment_type (cadence_zero_absent seg) = segment_type seg"
  "needs_fix (cadence_zero_absent seg) = needs_fix seg"
  "attributes (cadence_zero_absent seg) = attributes seg"
  by (cases seg; simp add: cadence_zero_absent_def segment_type_def needs_fix_def
        attributes_def cadence_attr_drop_zero)+

lemma emit_segment_zero:
  "emit_segment n i (cadence_zero_absent seg) xml = emit_segment n i seg xml"
  unfolding emit_segment_def by (simp only: zero_absent_same)

lemma emit_all_zero:
  "emit_all n i (map cadence_zero_absent segs) xml = emit_all n i segs xml"
  by (induction segs arbitrary: i xml) (simp_all add: emit_segment_zero)

lemma digit_char_is_digit: "d < 10 \<Longrightarrow> is_digit (digit_char d)"
proof -
  assume "d < 10"
  then have d: "d \<in> {0, 1, 2, 3, 4, 5, 6, 7, 8, 9}" by auto
  have "map digit_char [0, 1, 2, 3, 4, 5, 6, 7, 8, 9] = ''0123456789''"
    by code_simp
  with d show ?thesis
    by (auto simp: is_digit_def)
qed

lemma show_nat_digits: "list_all is_digit (show_nat n) \<and> show_nat n \<noteq> []"
proof (induction n rule: show_nat.induct)
  case (1 n)
  show ?case
  proof (cases "n < 10")
    case True
    then show ?thesis by (simp add: show_nat.simps [of n] digit_char_is_digit)
  next
    case False
    with 1 have "list_all is_digit (show_nat (n div 10))" by simp
    with False show ?thesis
      by (subst show_nat.simps, subst (2) show_nat.simps) (simp add: digit_char_is_digit)
  qed
qed


lemma two_decimal_form_intro:
  assumes s: "(if take 1 s = ''-'' then drop 1 s else s) = a @ ''.'' @ b"
    and "a \<noteq> []" "list_all is_digit a" "list_all is_digit b" "length b = 2"
  shows "two_decimal_form s"
proof -
  define body where "body = a @ ''.'' @ b"
  have k: "length body - 3 = length a" using assms(5) by (simp add: body_def)
  have l: "1 \<le> length a" using assms(2) by (cases a) auto
  have t1: "take (length a) body = a" by (simp add: body_def)
  have t2: "body ! length a = CHR ''.''" by (simp add: body_def nth_append)
  have t3: "drop (Suc (length a)) body = b" by (simp add: body_def)
  have t4: "4 \<le> length body" using l assms(5) by (simp add: body_def)
  have "4 \<le> length body
         \<and> list_all is_digit (take (length body - 3) body)
         \<and> body ! (length body - 3) = CHR ''.''
         \<and> list_all is_digit (drop (Suc (length body - 3)) body)"
    unfolding k t1 t2 t3 using t4 assms(3,4) by blast
  then show ?thesis
    unfolding two_decimal_form_def Let_def s body_def by blast
qed

lemma two_decimal_formI:
  assumes "a \<noteq> []" "list_all is_digit a" "list_all is_digit b" "length b = 2"
  shows "two_decimal_form (a @ ''.'' @ b)" "two_decimal_form (''-'' @ a @ ''.'' @ b)"
proof -
  from assms(1,2) obtain c cs where a: "a = c # cs" and c: "is_digit c"
    by (cases a) auto
  from c have "c \<noteq> CHR ''-''" by (auto simp: is_digit_def)
  then have t: "(if take 1 (a @ ''.'' @ b) = ''-'' then drop 1 (a @ ''.'' @ b) else a @ ''.'' @ b)
                  = a @ ''.'' @ b"
    by (simp add: a)
  have u: "(if take 1 (''-'' @ a @ ''.'' @ b) = ''-'' then drop 1 (''-'' @ a @ ''.'' @ b)
            else ''-'' @ a @ ''.'' @ b) = a @ ''.'' @ b"
    by simp
  show "two_decimal_form (a @ ''.'' @ b)"
    by (rule two_decimal_form_intro [OF t assms])
  show "two_decimal_form (''-'' @ a @ ''.'' @ b)"
    by (rule two_decimal_form_intro [OF u assms])
qed

lemma toFixed2_form:
  assumes "\<bar>r\<bar> < 10 ^ 21"
  shows "two_decimal_form (toFixed2 (Number r))"
proof -
  define n where "n = nat \<lfloor>\<bar>r\<bar> * 100 + 1 / 2\<rfloor>"
  define m where "m = (if length (show_nat n) \<le> 2
                        then replicate (3 - length (show_nat n)) CHR ''0'' @ show_nat n
                        else show_nat n)"
  have z: "is_digit CHR ''0''" by (simp add: is_digit_def)
  have dig: "list_all is_digit m"
    using show_nat_digits [of n] z by (auto simp: m_def list_all_iff)
  have len: "3 \<le> length m"
    using show_nat_digits [of n] by (auto simp: m_def)
  have a: "take (length m - 2) m \<noteq> []" using len by auto
  have b: "length (drop (length m - 2) m) = 2" using len by auto
  have da: "list_all is_digit (take (length m - 2) m)"
    using dig by (auto simp: list_all_iff dest: in_set_takeD)
  have db: "list_all is_digit (drop (length m - 2) m)"
    using dig by (auto simp: list_all_iff dest: in_set_dropD)
  have eq: "toFixed2 (Number r)
              = (if r < 0 then ''-'' else []) @ take (length m - 2) m @ ''.'' @ drop (length m - 2) m"
    using assms by (simp add: toFixed2_def Let_def n_def m_def)
  show ?thesis
    using two_decimal_formI [OF a da db b] by (simp add: eq)
qed

text \<open>
  C1, as stated, fails. An object of an unknown \<open>type\<close> without a truthy duration goes
  through the default case of the \<open>switch\<close>, which rewrites the opening tag to
  \<open>SteadyState\<close>: as the only segment of a workout it is not emitted as \<open>Warmup\<close>.
\<close>

theorem unknown_kind_loses_lead_tag:
  \<open>generateZWO ''w'' ''h'' [Other ''Unknown'' None None]
     = header ''w'' ''h'' @ ''        <SteadyState Duration="60" Power="0.50" />'' @ [CHR 0x0A] @ footer
   \<and> \<not> str_includes (generateZWO ''w'' ''h'' [Other ''Unknown'' None None]) ''Warmup''\<close>
  by code_simp

text \<open>
  C1, amended. For a non-empty list of segments none of which takes the tag-rewriting
  path (each is of one of the four kinds, or of an unknown kind with a truthy duration),
  the document is the header, one element for each segment, and the footer. The element
  at position 0 has the tag \<open>Warmup\<close>, the last one of a list of more than one has the
  tag \<open>Cooldown\<close>, every other element has the segment's own kind as its tag, and the
  attributes of each element are those of the segment alone, whatever the tag. A single
  segment gets the \<open>Warmup\<close> tag.
\<close>

theorem boundary_tags_and_attributes:
  assumes "segs \<noteq> []" and "list_all (\<lambda>s. \<not> needs_fix s) segs"
  shows "generateZWO workoutName href segs
           = header workoutName href
             @ concat (map (\<lambda>(i, seg). element (boundary_tag (length segs) i seg) seg)
                         (enumerate 0 segs))
             @ footer
         \<and> boundary_tag (length segs) 0 (hd segs) = ''Warmup''
         \<and> (1 < length segs \<longrightarrow>
               boundary_tag (length segs) (length segs - 1) (last segs) = ''Cooldown'')
         \<and> (\<forall>i. 0 < i \<and> i < length segs - 1 \<longrightarrow>
               boundary_tag (length segs) i (segs ! i) = segment_type (segs ! i))
         \<and> (length segs = 1 \<longrightarrow>
               generateZWO workoutName href segs
                 = header workoutName href @ element ''Warmup'' (hd segs) @ footer)"
proof -
  have doc: "generateZWO workoutName href segs
           = header workoutName href
             @ concat (map (\<lambda>(i, seg). element (boundary_tag (length segs) i seg) seg)
                         (enumerate 0 segs))
             @ footer"
    by (simp add: generateZWO_def emit_all_closed_form [OF assms(2)])
  have one: "length segs = 1 \<longrightarrow>
               generateZWO workoutName href segs
                 = header workoutName href @ element ''Warmup'' (hd segs) @ footer"
  proof
    assume "length segs = 1"
    then obtain seg where "segs = [seg]" by (cases segs) auto
    then show "generateZWO workoutName href segs
                 = header workoutName href @ element ''Warmup'' (hd segs) @ footer"
      using doc by (simp add: boundary_tag_def)
  qed
  show ?thesis
    using doc one by (simp add: boundary_tag_def)
qed

theorem boundary_tags_and_attributes_witness:
  \<open>generateZWO ''Test Workout'' ''h''
      [SteadyState (Number 600) (Number (4 / 5)) None,
       Ramp (Number 480) (Number (3 / 5)) (Number (17 / 20)) None,
       IntervalsT (Number 2) (Number 30) (Number (11 / 10)) (Number 30) (Number (11 / 20))
         (Some (Number 110)) (Some (Number 85)),
       SteadyState (Number 300) (Number (3 / 4)) (Some (Number 85))]
    = header ''Test Workout'' ''h''
      @ ''        <Warmup Duration="600" Power="0.80" />'' @ [CHR 0x0A]
      @ ''        <Ramp Duration="480" PowerLow="0.60" PowerHigh="0.85" />'' @ [CHR 0x0A]
      @ ''        <IntervalsT Repeat="2" OnDuration="30" OnPower="1.10" OffDuration="30" OffPower="0.55" OnCadence="110" OffCadence="85" />''
      @ [CHR 0x0A]
      @ ''        <Cooldown Duration="300" Power="0.75" Cadence="85" />'' @ [CHR 0x0A]
      @ footer\<close>
proof -
  define segs where "segs =
      [SteadyState (Number 600) (Number (4 / 5)) None,
       Ramp (Number 480) (Number (3 / 5)) (Number (17 / 20)) None,
       IntervalsT (Number 2) (Number 30) (Number (11 / 10)) (Number 30) (Number (11 / 20))
         (Some (Number 110)) (Some (Number 85)),
       SteadyState (Number 300) (Number (3 / 4)) (Some (Number 85))]"
  have h1: "segs \<noteq> []" by (simp add: segs_def)
  have h2: "list_all (\<lambda>s. \<not> needs_fix s) segs" by (simp add: segs_def needs_fix_def)
  have e: \<open>concat (map (\<lambda>(i, seg). element (boundary_tag (length segs) i seg) seg) (enumerate 0 segs))
     = ''        <Warmup Duration="600" Power="0.80" />'' @ [CHR 0x0A]
      @ ''        <Ramp Duration="480" PowerLow="0.60" PowerHigh="0.85" />'' @ [CHR 0x0A]
      @ ''        <IntervalsT Repeat="2" OnDuration="30" OnPower="1.10" OffDuration="30" OffPower="0.55" OnCadence="110" OffCadence="85" />''
      @ [CHR 0x0A]
      @ ''        <Cooldown Duration="300" Power="0.75" Cadence="85" />'' @ [CHR 0x0A]\<close>
    unfolding segs_def by code_simp
  from boundary_tags_and_attributes [OF h1 h2, of "''Test Workout''" "''h''"]
  have "generateZWO ''Test Workout'' ''h'' segs
          = header ''Test Workout'' ''h''
            @ concat (map (\<lambda>(i, seg). element (boundary_tag (length segs) i seg) seg)
                        (enumerate 0 segs))
            @ footer"
    by blast
  then show ?thesis
    unfolding e unfolding segs_def by simp
qed




text \<open>
  C9, as stated, fails. \<open>toFixed(2)\<close> prints a value that is not finite by its name: the
  classifier turns the annotation \<open>Infinity\<close> into the power \<open>Infinity\<close>, and the Power
  attribute of that segment has no decimal digits.
\<close>

theorem infinite_power_has_no_decimals:
  \<open>parseSegment ''1min @ full gas'' [''Infinity''] = Some (SteadyState (Number 60) PosInf None)
   \<and> attributes (SteadyState (Number 60) PosInf None) = ''Duration="60" Power="Infinity"''
   \<and> \<not> two_decimal_form (toFixed2 PosInf)\<close>
  by code_simp

text \<open>
  C9, amended. A cadence field that holds 0 yields no attribute, so the document is the
  one of the same segments with that cadence absent (Cadence, OnCadence and OffCadence
  alike). The power fields are printed by \<open>toFixed(2)\<close>, and every finite power of
  magnitude below \<open>10\<^sup>2\<^sup>1\<close> is printed with exactly two decimal digits.
\<close>

theorem zero_cadence_and_two_decimals:
  \<open>cadence_attr name (Some (Number 0)) = []
   \<and> generateZWO workoutName href (map cadence_zero_absent segs) = generateZWO workoutName href segs
   \<and> (\<bar>r\<bar> < 10 ^ 21 \<longrightarrow> two_decimal_form (toFixed2 (Number r)))
   \<and> attributes (SteadyState d p c)
       = ''Duration="'' @ num_to_string d @ ''" Power="'' @ toFixed2 p @ ''"''
         @ cadence_attr ''Cadence'' c
   \<and> attributes (Ramp d lo hi c)
       = ''Duration="'' @ num_to_string d @ ''" PowerLow="'' @ toFixed2 lo
         @ ''" PowerHigh="'' @ toFixed2 hi @ ''"'' @ cadence_attr ''Cadence'' c
   \<and> attributes (IntervalsT n d1 p1 d2 p2 c1 c2)
       = ''Repeat="'' @ num_to_string n @ ''" OnDuration="'' @ num_to_string d1
         @ ''" OnPower="'' @ toFixed2 p1 @ ''" OffDuration="'' @ num_to_string d2
         @ ''" OffPower="'' @ toFixed2 p2 @ ''"''
         @ cadence_attr ''OnCadence'' c1 @ cadence_attr ''OffCadence'' c2\<close>
proof -
  have a: "cadence_attr name (Some (Number 0)) = []"
    by (simp add: cadence_attr_def)
  have b: "generateZWO workoutName href (map cadence_zero_absent segs)
             = generateZWO workoutName href segs"
    by (simp add: generateZWO_def emit_all_zero)
  have c: "\<bar>r\<bar> < 10 ^ 21 \<longrightarrow> two_decimal_form (toFixed2 (Number r))"
    using toFixed2_form by blast
  show ?thesis
    using a b c by (simp add: attributes_def)
qed

theorem zero_cadence_and_two_decimals_witness:
  \<open>generateZWO ''w'' ''h'' [SteadyState (Number 300) (Number (3 / 4)) (Some (Number 0))]
     = generateZWO ''w'' ''h'' [SteadyState (Number 300) (Number (3 / 4)) None]
   \<and> toFixed2 (Number (201 / 200)) = ''1.01''
   \<and> two_decimal_form (toFixed2 (Number (201 / 200)))\<close>
proof -
  have z: "map cadence_zero_absent [SteadyState (Number 300) (Number (3 / 4)) (Some (Number 0))]
             = [SteadyState (Number 300) (Number (3 / 4)) None]"
    by (simp add: cadence_zero_absent_def drop_zero_def)
  have s: "\<bar>201 / 200 :: rat\<bar> < 10 ^ 21" by simp
  have f: "toFixed2 (Number (201 / 200)) = ''1.01''" by code_simp
  from zero_cadence_and_two_decimals
         [of "''Cadence''" "''w''" "''h''"
             "[SteadyState (Number 300) (Number (3 / 4)) (Some (Number 0))]" "201 / 200"]
  show ?thesis
    using s f unfolding z by simp
qed

end
